theory Spec2Isabelle
  imports Main
begin

chapter \<open>The website-to-context pipeline of the LiveAvatar AI SDR demo\<close>

text \<open>
  The route \<open>generate-context\<close> fetches a web site, takes the text out of its HTML,
  derives a business name from the URL, composes a prompt of bounded length and
  reuses or creates a context at the remote service; the component \<open>LiveAvatarDemo\<close>
  drives it from a form. The file \<open>route.ts\<close> holds two revisions of the route: the
  single-page one fetches the submitted URL only, the multi-page one crawls up to
  three more pages. Definitions of the second carry the suffix \<open>_multi\<close> where the
  first has a definition of the same name. The component comes in a revision with an
  end screen and in one without, \<open>startSession\<close> and \<open>startSession_basic\<close> below.
\<close>

section \<open>JavaScript strings\<close>

text \<open>
  A JavaScript string is a sequence of UTF-16 code units. It is modelled as a
  \<^typ>\<open>string\<close>, one \<^typ>\<open>char\<close> per code unit, which covers the code units
  \<open>0x00\<close> to \<open>0xFF\<close>. \<open>length\<close> is the \<open>.length\<close> of the source.
\<close>

text \<open>
  The class \<open>\s\<close> of a regular expression, and the characters \<open>trim()\<close> removes:
  of the code units below \<open>0x100\<close> these are TAB, LF, VT, FF, CR, SPACE and NBSP.
\<close>

definition isWhiteSpace :: "char \<Rightarrow> bool" where
  "isWhiteSpace c = (c \<in> set [CHR 0x09, CHR 0x0A, CHR 0x0B, CHR 0x0C, CHR 0x0D, CHR 0x20, CHR 0xA0])"

text \<open>\<open>s.trim()\<close>.\<close>

definition trim :: "string \<Rightarrow> string" where
  "trim s = rev (dropWhile isWhiteSpace (rev (dropWhile isWhiteSpace s)))"

text \<open>
  Case folding of the letters \<open>A\<close> to \<open>Z\<close>. A regular expression with the flag \<open>i\<close>
  (and without \<open>u\<close>) compares canonicalised code units, and no code unit outside
  ASCII canonicalises to an ASCII letter, so for a pattern made of ASCII characters the
  comparison is equality up to this folding.
\<close>

definition toLowerCase :: "char \<Rightarrow> char" where
  "toLowerCase c =
     (case map_of (zip ''ABCDEFGHIJKLMNOPQRSTUVWXYZ'' ''abcdefghijklmnopqrstuvwxyz'') c of
        Some d \<Rightarrow> d
      | None \<Rightarrow> c)"

text \<open>
  \<open>c.toUpperCase()\<close> for one character. Only the ASCII letters are mapped: the one
  caller applies it to the first character of a host name segment, and the host
  names a URL record serialises are ASCII.
\<close>

definition toUpperCase :: "char \<Rightarrow> char" where
  "toUpperCase c =
     (case map_of (zip ''abcdefghijklmnopqrstuvwxyz'' ''ABCDEFGHIJKLMNOPQRSTUVWXYZ'') c of
        Some d \<Rightarrow> d
      | None \<Rightarrow> c)"

text \<open>\<open>s.startsWith(p)\<close>, and the same test up to the case of ASCII letters.\<close>

definition startsWith :: "string \<Rightarrow> string \<Rightarrow> bool" where
  "startsWith s p = (take (length p) s = p)"

definition startsWithCI :: "string \<Rightarrow> string \<Rightarrow> bool" where
  "startsWithCI s p = (map toLowerCase (take (length p) s) = map toLowerCase p)"

text \<open>\<open>s.slice(a, b)\<close> for indices \<open>0 \<le> a\<close> and \<open>0 \<le> b\<close>.\<close>

definition slice :: "nat \<Rightarrow> nat \<Rightarrow> string \<Rightarrow> string" where
  "slice a b s = take (b - a) (drop a s)"

text \<open>
  \<open>s.replace(/p/g, r)\<close> for a pattern \<open>p\<close> that is a literal, non-empty text: the
  occurrences are replaced from left to right, and the search resumes behind each one.
\<close>

fun replaceAll :: "string \<Rightarrow> string \<Rightarrow> string \<Rightarrow> string" where
  "replaceAll p r [] = []"
| "replaceAll p r (c # cs) =
     (if p \<noteq> [] \<and> startsWith (c # cs) p
      then r @ replaceAll p r (drop (length p - 1) cs)
      else c # replaceAll p r cs)"

text \<open>\<open>s.replace(p, r)\<close> for a string \<open>p\<close>: the first occurrence only.\<close>

fun replaceFirst :: "string \<Rightarrow> string \<Rightarrow> string \<Rightarrow> string" where
  "replaceFirst p r [] = (if p = [] then r else [])"
| "replaceFirst p r (c # cs) =
     (if startsWith (c # cs) p then r @ drop (length p) (c # cs)
      else c # replaceFirst p r cs)"

text \<open>\<open>ws.join(sep)\<close>.\<close>

fun join :: "string \<Rightarrow> string list \<Rightarrow> string" where
  "join sep [] = []"
| "join sep [w] = w"
| "join sep (w # v # ws) = w @ sep @ join sep (v # ws)"

section \<open>Text Extractor\<close>

text \<open>
  The rest of \<open>s\<close> behind its first \<open>>\<close>: what is left to match after \<open>[^>]*>\<close>.
  The class excludes \<open>>\<close>, so the \<open>>\<close> of the pattern can only be the first one.
\<close>

fun afterFirstGt :: "string \<Rightarrow> string option" where
  "afterFirstGt [] = None"
| "afterFirstGt (c # cs) = (if c = CHR ''>'' then Some cs else afterFirstGt cs)"

text \<open>
  The rest of \<open>s\<close> behind the first occurrence of \<open>p\<close>, compared without case: what is
  left after the lazy \<open>[\s\S]*?\<close> followed by the literal \<open>p\<close>.
\<close>

fun afterFirstCI :: "string \<Rightarrow> string \<Rightarrow> string option" where
  "afterFirstCI p [] = (if p = [] then Some [] else None)"
| "afterFirstCI p (c # cs) =
     (if startsWithCI (c # cs) p then Some (drop (length p) (c # cs))
      else afterFirstCI p cs)"

text \<open>
  One match of \<open>/<tag[^>]*>[\s\S]*?<\/tag>/i\<close> at the start of \<open>s\<close>; the result is the
  text behind the match.
\<close>

definition matchElement :: "string \<Rightarrow> string \<Rightarrow> string option" where
  "matchElement tag s =
     (if startsWithCI s (CHR ''<'' # tag)
      then (case afterFirstGt (drop (Suc (length tag)) s) of
              None \<Rightarrow> None
            | Some r \<Rightarrow> afterFirstCI (''</'' @ tag @ ''>'') r)
      else None)"

lemma afterFirstGt_shorter: "afterFirstGt s = Some r \<Longrightarrow> length r < length s"
  by (induction s) (auto split: if_splits)

lemma afterFirstCI_shorter: "afterFirstCI p s = Some r \<Longrightarrow> length r \<le> length s"
  by (induction s) (auto split: if_splits)

lemma matchElement_shorter:
  assumes "matchElement tag s = Some r"
  shows "length r < length s"
proof -
  from assms have sw: "startsWithCI s (CHR ''<'' # tag)"
    by (auto simp: matchElement_def split: if_splits)
  from assms sw obtain q where q: "afterFirstGt (drop (Suc (length tag)) s) = Some q"
    and r: "afterFirstCI (''</'' @ tag @ ''>'') q = Some r"
    by (auto simp: matchElement_def split: option.splits)
  have "length r \<le> length q" using r by (rule afterFirstCI_shorter)
  moreover have "length q < length (drop (Suc (length tag)) s)"
    using q by (rule afterFirstGt_shorter)
  ultimately show ?thesis by simp
qed

text \<open>\<open>s.replace(/<tag[^>]*>[\s\S]*?<\/tag>/gi, "")\<close>.\<close>

function removeElement :: "string \<Rightarrow> string \<Rightarrow> string" where
  "removeElement tag [] = []"
| "removeElement tag (c # cs) =
     (case matchElement tag (c # cs) of
        Some r \<Rightarrow> removeElement tag r
      | None \<Rightarrow> c # removeElement tag cs)"
  by pat_completeness auto
termination
  by (relation "measure (\<lambda>(tag, s). length s)") (auto dest: matchElement_shorter)

text \<open>
  One match of \<open>/<[^>]+>/\<close> at the start of \<open>s\<close>: a \<open><\<close>, the longest run of
  characters other than \<open>>\<close>, which must not be empty, and the \<open>>\<close> that ends it.
\<close>

definition matchTag :: "string \<Rightarrow> string option" where
  "matchTag s =
     (case s of
        [] \<Rightarrow> None
      | c # cs \<Rightarrow>
          if c = CHR ''<'' \<and> takeWhile (\<lambda>x. x \<noteq> CHR ''>'') cs \<noteq> []
          then (case dropWhile (\<lambda>x. x \<noteq> CHR ''>'') cs of
                  [] \<Rightarrow> None
                | _ # r \<Rightarrow> Some r)
          else None)"

lemma matchTag_shorter:
  assumes "matchTag s = Some r"
  shows "length r < length s"
proof -
  from assms obtain c cs g where s: "s = c # cs"
    and d: "dropWhile (\<lambda>x. x \<noteq> CHR ''>'') cs = g # r"
    by (auto simp: matchTag_def split: list.splits if_splits)
  have "length (dropWhile (\<lambda>x. x \<noteq> CHR ''>'') cs) \<le> length cs"
    by (rule length_dropWhile_le)
  with s d show ?thesis by simp
qed

text \<open>\<open>s.replace(/<[^>]+>/g, " ")\<close>.\<close>

function stripTags :: "string \<Rightarrow> string" where
  "stripTags [] = []"
| "stripTags (c # cs) =
     (case matchTag (c # cs) of
        Some r \<Rightarrow> CHR '' '' # stripTags r
      | None \<Rightarrow> c # stripTags cs)"
  by pat_completeness auto
termination
  by (relation "measure length") (auto dest: matchTag_shorter)

text \<open>\<open>s.replace(/\s+/g, " ")\<close>: every maximal run of white space becomes one space.\<close>

function collapseWhiteSpace :: "string \<Rightarrow> string" where
  "collapseWhiteSpace [] = []"
| "collapseWhiteSpace (c # cs) =
     (if isWhiteSpace c then CHR '' '' # collapseWhiteSpace (dropWhile isWhiteSpace cs)
      else c # collapseWhiteSpace cs)"
  by pat_completeness auto
termination
  by (relation "measure length") (auto simp: length_dropWhile_le less_Suc_eq_le)

text \<open>The six entity replacements, in the order of the source.\<close>

definition decodeEntities :: "string \<Rightarrow> string" where
  "decodeEntities text0 =
     (let text1 = replaceAll ''&nbsp;'' '' '' text0;
          text2 = replaceAll ''&amp;'' ''&'' text1;
          text3 = replaceAll ''&lt;'' ''<'' text2;
          text4 = replaceAll ''&gt;'' ''>'' text3;
          text5 = replaceAll ''&quot;'' [CHR 0x22] text4;
          text6 = replaceAll ''&#39;'' [CHR 0x27] text5
      in text6)"

text \<open>\<open>extractTextFromHtml\<close> of the single-page route.\<close>

definition extractTextFromHtml :: "string \<Rightarrow> string" where
  "extractTextFromHtml html =
     (let text1 = removeElement ''script'' html;
          text2 = removeElement ''style'' text1;
          text3 = stripTags text2;
          text4 = decodeEntities text3
      in trim (collapseWhiteSpace text4))"

text \<open>
  \<open>extractTextFromHtml\<close> of the multi-page route, which also removes the \<open>nav\<close>,
  \<open>footer\<close> and \<open>header\<close> elements.
\<close>

definition extractTextFromHtml_multi :: "string \<Rightarrow> string" where
  "extractTextFromHtml_multi html =
     (let text1 = removeElement ''script'' html;
          text2 = removeElement ''style'' text1;
          text3 = removeElement ''nav'' text2;
          text4 = removeElement ''footer'' text3;
          text5 = removeElement ''header'' text4;
          text6 = stripTags text5;
          text7 = decodeEntities text6
      in trim (collapseWhiteSpace text7))"

section \<open>Business Identity Resolver\<close>

text \<open>
  \<open>new URL(url)\<close> is the platform's parser, not code of this repository. The functions
  that call it take it as the parameter \<open>newURL\<close>: it answers with the message of the
  \<open>TypeError\<close> it throws (\<open>Inl\<close>) or with the URL record, of which the source reads the
  fields \<open>origin\<close> and \<open>hostname\<close>.
\<close>

record URL =
  origin :: string
  hostname :: string

type_synonym url_parser = "string \<Rightarrow> string + URL"

text \<open>\<open>name.replace(/^www\./, "")\<close>.\<close>

definition stripWww :: "string \<Rightarrow> string" where
  "stripWww name = (if startsWith name ''www.'' then drop 4 name else name)"

text \<open>
  \<open>name.replace(/\.(com|org|net|io|co|ai|app)$/, "")\<close>: the leftmost position at which
  a dot and one of the alternatives reach the end of the text; everything from that dot
  on is removed.
\<close>

definition commonTlds :: "string list" where
  "commonTlds = [''com'', ''org'', ''net'', ''io'', ''co'', ''ai'', ''app'']"

fun stripTld :: "string \<Rightarrow> string" where
  "stripTld [] = []"
| "stripTld (c # cs) =
     (if c = CHR ''.'' \<and> cs \<in> set commonTlds then [] else c # stripTld cs)"

text \<open>
  \<open>name.split(/[.-]/)\<close>: the pieces between the separators, empty pieces included; the
  empty text gives one empty piece.
\<close>

fun splitDotDash :: "string \<Rightarrow> string list" where
  "splitDotDash [] = [[]]"
| "splitDotDash (c # cs) =
     (if c = CHR ''.'' \<or> c = CHR ''-'' then [] # splitDotDash cs
      else (case splitDotDash cs of
              [] \<Rightarrow> [[c]]
            | w # ws \<Rightarrow> (c # w) # ws))"

text \<open>\<open>word.charAt(0).toUpperCase() + word.slice(1)\<close>.\<close>

definition capitalize :: "string \<Rightarrow> string" where
  "capitalize word = (case word of [] \<Rightarrow> [] | c # cs \<Rightarrow> toUpperCase c # cs)"

text \<open>
  \<open>extractBusinessName\<close>, the same in every revision of the route. The \<open>catch\<close> of the
  source is the branch \<open>Inl\<close>.
\<close>

definition extractBusinessName :: "url_parser \<Rightarrow> string \<Rightarrow> string \<Rightarrow> string" where
  "extractBusinessName newURL url content =
     (case newURL url of
        Inl e \<Rightarrow> ''the company''
      | Inr u \<Rightarrow>
          (let name = stripTld (stripWww (hostname u))
           in join '' '' (map capitalize (splitDotDash name))))"

text \<open>
  An instance of the parameter, for evaluating the functions at concrete URLs. It reads
  the texts \<open>http://host\<close> and \<open>https://host\<close>, with nothing or a path, query or fragment
  behind, for a host made of ASCII letters, dots and single hyphens; on these the
  platform's parser answers with the host in lower case, and so does this reader. It
  rejects every other text, which the platform's parser does not.
\<close>

definition isHostChar :: "char \<Rightarrow> bool" where
  "isHostChar c =
     (c \<in> set ''abcdefghijklmnopqrstuvwxyzABCDEFGHIJKLMNOPQRSTUVWXYZ.-'')"

fun hasDoubleHyphen :: "string \<Rightarrow> bool" where
  "hasDoubleHyphen (a # b # cs) = ((a = CHR ''-'' \<and> b = CHR ''-'') \<or> hasDoubleHyphen (b # cs))"
| "hasDoubleHyphen cs = False"

definition readAuthority :: "string \<Rightarrow> string \<Rightarrow> string + URL" where
  "readAuthority scheme rest =
     (let host = takeWhile isHostChar rest;
          behind = dropWhile isHostChar rest
      in if host \<noteq> [] \<and> \<not> hasDoubleHyphen host \<and>
            (case behind of [] \<Rightarrow> True | c # cs \<Rightarrow> c \<in> set ''/?#'')
         then Inr \<lparr>origin = scheme @ ''://'' @ map toLowerCase host,
                   hostname = map toLowerCase host\<rparr>
         else Inl ''Invalid URL'')"

definition simpleURL :: url_parser where
  "simpleURL url =
     (if startsWithCI url ''https://'' then readAuthority ''https'' (drop 8 url)
      else if startsWithCI url ''http://'' then readAuthority ''http'' (drop 7 url)
      else Inl ''Invalid URL'')"

section \<open>URL normalisation of the form\<close>

text \<open>The test \<open>/^https?:\/\//i\<close>.\<close>

definition hasHttpScheme :: "string \<Rightarrow> bool" where
  "hasHttpScheme s = (startsWithCI s ''http://'' \<or> startsWithCI s ''https://'')"

text \<open>\<open>normalizeUrl\<close>, the same in every revision of the component.\<close>

definition normalizeUrl :: "string \<Rightarrow> string" where
  "normalizeUrl url =
     (let normalized = trim url
      in if \<not> hasHttpScheme normalized then ''https://'' @ normalized else normalized)"

section \<open>Prompt Composer\<close>

definition newline :: string where
  "newline = [CHR 0x0A]"

text \<open>
  \<open>generateSalesPrompt\<close> of the single-page route. The template literal is written
  line by line; \<open>join newline\<close> puts the line ends back.
\<close>

definition generateSalesPrompt :: "string \<Rightarrow> string \<Rightarrow> string \<Rightarrow> string" where
  "generateSalesPrompt userName businessName websiteContent =
     (let truncatedContent = slice 0 2000 websiteContent
      in join newline
        [''You are a friendly and knowledgeable AI sales representative for '' @ businessName
           @ ''. Your name is '' @ userName @ [CHR 0x27] @ ''s AI Assistant.'',
         [],
         ''Your role is to:'',
         ''- Welcome visitors warmly and learn about their needs'',
         ''- Answer questions about '' @ businessName @ [CHR 0x27] @ ''s products and services'',
         ''- Help potential customers understand how '' @ businessName
           @ '' can solve their problems'',
         ''- Guide interested visitors toward taking the next step (booking a demo, contacting sales, etc.)'',
         [],
         ''Here is information about the business from their website:'',
         truncatedContent,
         [],
         ''Communication style:'',
         ''- Be conversational and approachable, not salesy or pushy'',
         ''- Listen actively and ask clarifying questions'',
         ''- Provide helpful, accurate information based on what you know'',
         ''- If you don'' @ [CHR 0x27] @ ''t know something specific, offer to connect them with a human team member'',
         ''- Keep responses concise and natural for voice conversation'',
         [],
         ''Remember: You'' @ [CHR 0x27] @ ''re having a real-time voice conversation, so keep your responses brief and conversational.''])"

text \<open>
  \<open>generateSalesPrompt\<close> of the multi-page route. An empty \<open>title\<close> or \<open>description\<close>
  leaves its line empty.
\<close>

definition generateSalesPrompt_multi ::
  "string \<Rightarrow> string \<Rightarrow> string \<Rightarrow> string \<Rightarrow> string \<Rightarrow> string" where
  "generateSalesPrompt_multi userName businessName websiteContent title description =
     (let truncatedContent = slice 0 6000 websiteContent
      in join newline
        [''You are a friendly and knowledgeable AI sales representative for '' @ businessName
           @ ''. Your name is '' @ userName @ [CHR 0x27] @ ''s AI Assistant.'',
         [],
         ''Company Overview:'',
         ''- Company: '' @ businessName,
         (if title \<noteq> [] then ''- Title: '' @ title else []),
         (if description \<noteq> [] then ''- Description: '' @ description else []),
         [],
         ''Your role is to:'',
         ''- Welcome visitors warmly and learn about their needs'',
         ''- Answer questions about '' @ businessName @ [CHR 0x27]
           @ ''s products, services, and offerings'',
         ''- Provide accurate, up-to-date information about '' @ businessName,
         ''- Help potential customers understand how '' @ businessName
           @ '' can solve their problems'',
         ''- Guide interested visitors toward taking the next step (booking a demo, contacting sales, signing up, etc.)'',
         [],
         ''IMPORTANT: Base your answers ONLY on the information provided below. If asked about something not covered in the content below, say you'' @ [CHR 0x27] @ ''d be happy to connect them with someone who can help with that specific question.'',
         [],
         ''Here is detailed information about '' @ businessName @ '' from their website:'',
         [],
         truncatedContent,
         [],
         ''Communication style:'',
         ''- Be conversational and approachable, not salesy or pushy'',
         ''- Listen actively and ask clarifying questions'',
         ''- Provide helpful, accurate information based ONLY on what'' @ [CHR 0x27]
           @ ''s provided above'',
         ''- If you don'' @ [CHR 0x27] @ ''t know something specific, offer to connect them with a human team member'',
         ''- Keep responses concise and natural for voice conversation (2-3 sentences max)'',
         ''- Be enthusiastic about '' @ businessName @ [CHR 0x27] @ ''s offerings'',
         [],
         ''Remember: You'' @ [CHR 0x27] @ ''re having a real-time voice conversation, so keep your responses brief and conversational.''])"

section \<open>Title and description of the homepage\<close>

text \<open>
  One match of \<open>/<title[^>]*>([^<]+)<\/title>/i\<close> at the start of \<open>s\<close>; the result is
  the group: the longest run of characters other than \<open><\<close> behind the first \<open>>\<close>, not
  empty, with the closing tag right behind it.
\<close>

definition matchTitle :: "string \<Rightarrow> string option" where
  "matchTitle s =
     (if startsWithCI s ''<title''
      then (case afterFirstGt (drop 6 s) of
              None \<Rightarrow> None
            | Some r \<Rightarrow>
                (let inner = takeWhile (\<lambda>x. x \<noteq> CHR ''<'') r;
                     behind = dropWhile (\<lambda>x. x \<noteq> CHR ''<'') r
                 in if inner \<noteq> [] \<and> startsWithCI behind ''</title>'' then Some inner
                    else None))
      else None)"

text \<open>\<open>s.match(re)\<close> without the flag \<open>g\<close>: the match at the leftmost position that has one.\<close>

fun firstMatch :: "(string \<Rightarrow> 'a option) \<Rightarrow> string \<Rightarrow> 'a option" where
  "firstMatch m [] = m []"
| "firstMatch m (c # cs) =
     (case m (c # cs) of Some g \<Rightarrow> Some g | None \<Rightarrow> firstMatch m cs)"

definition extractTitle :: "string \<Rightarrow> string" where
  "extractTitle html =
     (case firstMatch matchTitle html of Some g \<Rightarrow> trim g | None \<Rightarrow> [])"

text \<open>
  A greedy \<open>[^>]*\<close> with the rest of the pattern, \<open>m\<close>, behind it: the run of characters
  other than \<open>>\<close> is taken whole first and given back one character at a time until \<open>m\<close>
  matches.
\<close>

primrec giveBack :: "nat \<Rightarrow> (string \<Rightarrow> 'a option) \<Rightarrow> string \<Rightarrow> 'a option" where
  "giveBack 0 m s = m s"
| "giveBack (Suc k) m s =
     (case m (drop (Suc k) s) of Some g \<Rightarrow> Some g | None \<Rightarrow> giveBack k m s)"

definition skipNotGt :: "(string \<Rightarrow> 'a option) \<Rightarrow> string \<Rightarrow> 'a option" where
  "skipNotGt m s = giveBack (length (takeWhile (\<lambda>x. x \<noteq> CHR ''>'') s)) m s"

definition isQuote :: "char \<Rightarrow> bool" where
  "isQuote c = (c = CHR 0x22 \<or> c = CHR 0x27)"

text \<open>A literal compared without case, and the class \<open>["']\<close>; each gives the text behind.\<close>

definition matchLiteral :: "string \<Rightarrow> string \<Rightarrow> string option" where
  "matchLiteral p s = (if startsWithCI s p then Some (drop (length p) s) else None)"

definition matchQuote :: "string \<Rightarrow> string option" where
  "matchQuote s = (case s of [] \<Rightarrow> None | c # cs \<Rightarrow> if isQuote c then Some cs else None)"

text \<open>\<open>attr=["']val["']\<close>.\<close>

definition matchAttribute :: "string \<Rightarrow> string \<Rightarrow> string \<Rightarrow> string option" where
  "matchAttribute attr val s =
     Option.bind (Option.bind (Option.bind (matchLiteral (attr @ ''='') s) matchQuote)
       (matchLiteral val)) matchQuote"

text \<open>\<open>content=["']([^"']+)["']\<close>; the result is the group.\<close>

definition matchContent :: "string \<Rightarrow> string option" where
  "matchContent s =
     Option.bind (Option.bind (matchLiteral ''content='' s) matchQuote)
       (\<lambda>r. let inner = takeWhile (\<lambda>x. \<not> isQuote x) r;
                 behind = dropWhile (\<lambda>x. \<not> isQuote x) r
             in if inner \<noteq> [] \<and> behind \<noteq> [] then Some inner else None)"

text \<open>
  One match of \<open>/<meta[^>]*attr=["']val["'][^>]*content=["']([^"']+)["']/i\<close> at the
  start of \<open>s\<close>.
\<close>

definition matchMeta :: "string \<Rightarrow> string \<Rightarrow> string \<Rightarrow> string option" where
  "matchMeta attr val s =
     (if startsWithCI s ''<meta''
      then skipNotGt (\<lambda>r. Option.bind (matchAttribute attr val r) (skipNotGt matchContent))
             (drop 5 s)
      else None)"

definition extractMetaDescription :: "string \<Rightarrow> string" where
  "extractMetaDescription html =
     (case firstMatch (matchMeta ''name'' ''description'') html of
        Some g \<Rightarrow> trim g
      | None \<Rightarrow>
          (case firstMatch (matchMeta ''property'' ''og:description'') html of
             Some g \<Rightarrow> trim g
           | None \<Rightarrow> []))"

section \<open>The world of a request\<close>

text \<open>
  The route handler talks to three parties: the web site it crawls, the remote
  service that lists and creates contexts, and the clock. A request is run against an
  environment that holds their answers, and the run returns, with its response, the
  calls it made in the order it made them.

  \<^item> \<open>pageOf url\<close> is the outcome of a GET of \<open>url\<close>: \<open>Some\<close> of the body when it
    completes with a 2xx status before the caller's timeout, \<open>None\<close> on a network error,
    a timeout or another status.
  \<^item> \<open>listing\<close> is the outcome of \<open>GET /v1/contexts?page=1&page_size=100\<close>: the entries
    of the first page, or \<open>ListFailed\<close> when the call throws or its status is not 2xx.
  \<^item> \<open>creation\<close> is the outcome of \<open>POST /v1/contexts\<close>: the call throws, it is rejected
    with a status and perhaps a message at \<open>data[0].message\<close>, or it is accepted with
    the fields \<open>data.context_id\<close> and \<open>data.id\<close> of its answer.
  \<^item> \<open>now\<close> is \<open>Date.now()\<close>.
\<close>

record remote_context =
  ctx_id :: string
  ctx_name :: string

datatype list_response = ListFailed | ListPage "remote_context list"

datatype create_response =
    CreateThrows string
  | CreateRejected nat "string option"
  | CreateAccepted "string option" "string option"

record create_request =
  name :: string
  avatar_id :: string
  voice_id :: string
  prompt :: string
  opening_text :: string

datatype call = FetchPage string | ListContexts | CreateContext create_request

record env =
  urlParser :: url_parser
  pageOf :: "string \<Rightarrow> string option"
  listing :: list_response
  creation :: create_response
  now :: nat

text \<open>The body of the request, and the response: its status and its JSON body.\<close>

record request =
  userName :: string
  businessUrl :: string
  avatarId :: "string option"
  voiceId :: "string option"

datatype json_body =
    ErrorBody string
  | ContextBody "string option" string bool

record response =
  status :: nat
  body :: json_body

text \<open>The defaults of \<open>secrets.ts\<close>.\<close>

definition AVATAR_ID :: string where
  "AVATAR_ID = ''513fd1b7-7ef9-466d-9af2-344e51eeb833''"

definition VOICE_ID :: string where
  "VOICE_ID = ''de5574fc-009e-4a01-a881-9919ef8f5a0c''"

text \<open>
  \<open>x || d\<close> for an optional string \<open>x\<close>: \<open>undefined\<close> and the empty string are falsy.
  \<open>orDefault\<close> has a string on the right, \<open>orElse\<close> another optional string.
\<close>

definition isTruthy :: "string option \<Rightarrow> bool" where
  "isTruthy x = (case x of None \<Rightarrow> False | Some v \<Rightarrow> v \<noteq> [])"

definition orDefault :: "string option \<Rightarrow> string \<Rightarrow> string" where
  "orDefault x d = (if isTruthy x then the x else d)"

definition orElse :: "string option \<Rightarrow> string option \<Rightarrow> string option" where
  "orElse x y = (if isTruthy x then x else y)"

text \<open>A number in a template literal: the decimal digits of a natural number.\<close>

definition digitChar :: "nat \<Rightarrow> char" where
  "digitChar d = ''0123456789'' ! d"

fun showNat :: "nat \<Rightarrow> string" where
  "showNat n = (if n < 10 then [digitChar n] else showNat (n div 10) @ [digitChar (n mod 10)])"

declare showNat.simps [simp del]

section \<open>Site Crawler\<close>

record crawl_result =
  content :: string
  title :: string
  description :: string

definition additionalPaths :: "string list" where
  "additionalPaths =
     [''/about'', ''/about-us'', ''/products'', ''/services'', ''/features'', ''/pricing'',
      ''/solutions'']"

text \<open>
  What one of the additional pages contributes: its label and text when the page was
  fetched, its body is not empty and its text has more than 100 characters, and the
  empty string otherwise.
\<close>

definition pageSection :: "env \<Rightarrow> string \<Rightarrow> string \<Rightarrow> string" where
  "pageSection e orig path =
     (case pageOf e (orig @ path) of
        None \<Rightarrow> []
      | Some html \<Rightarrow>
          if html \<noteq> [] then
            (let pageContent = extractTextFromHtml_multi html
             in if length pageContent > 100
                then replaceFirst ''-'' '' '' (replaceFirst ''/'' [] path) @ '' page:'' @ newline
                       @ pageContent @ newline @ newline
                else [])
          else [])"

text \<open>
  \<open>fetchWebsiteContent\<close> of the multi-page route. \<open>new URL(baseUrl)\<close> comes first and
  may throw (\<open>Inl\<close>); then the homepage is fetched, and only behind a homepage with a
  body that is not empty the first three additional paths are. The fetches start in
  the order of the list.
\<close>

definition fetchWebsiteContent :: "env \<Rightarrow> string \<Rightarrow> string + crawl_result \<times> call list" where
  "fetchWebsiteContent e baseUrl =
     (case urlParser e baseUrl of
        Inl err \<Rightarrow> Inl err
      | Inr baseUrlObj \<Rightarrow>
          (let homepageHtml = pageOf e baseUrl
           in if \<not> isTruthy homepageHtml
              then Inr (\<lparr>content = [], title = [], description = []\<rparr>, [FetchPage baseUrl])
              else
                (let html = the homepageHtml;
                     allContent = ''Homepage:'' @ newline @ extractTextFromHtml_multi html
                                    @ newline @ newline;
                     paths = take 3 additionalPaths;
                     additionalContents = map (pageSection e (origin baseUrlObj)) paths
                 in Inr (\<lparr>content = allContent @ concat (filter (\<lambda>c. c \<noteq> []) additionalContents),
                          title = extractTitle html,
                          description = extractMetaDescription html\<rparr>,
                         FetchPage baseUrl # map (\<lambda>path. FetchPage (origin baseUrlObj @ path)) paths))))"

section \<open>Context Repository Client\<close>

text \<open>
  \<open>findExistingContext\<close>, given the outcome of its one call: the identifier of the first
  entry of the page whose name starts with the business name and \<open>Sales Rep\<close>.
\<close>

definition findExistingContext :: "list_response \<Rightarrow> string \<Rightarrow> string option" where
  "findExistingContext answer business =
     (case answer of
        ListFailed \<Rightarrow> None
      | ListPage contexts \<Rightarrow>
          (let searchPrefix = business @ '' Sales Rep''
           in case find (\<lambda>ctx. startsWith (ctx_name ctx) searchPrefix) contexts of
                Some matching \<Rightarrow> Some (ctx_id matching)
              | None \<Rightarrow> None))"

text \<open>
  Steps 2 to 4 of \<open>POST\<close>, the same text in both revisions of the route but for the
  prompt: look for a context to reuse, and create one when there is none. \<open>calls\<close> are
  the calls made so far.
\<close>

definition reuseOrCreate ::
  "env \<Rightarrow> request \<Rightarrow> string \<Rightarrow> string \<Rightarrow> call list \<Rightarrow> response \<times> call list" where
  "reuseOrCreate e req business systemPrompt calls =
     (let selectedAvatarId = orDefault (avatarId req) AVATAR_ID;
          selectedVoiceId = orDefault (voiceId req) VOICE_ID;
          existingContextId = findExistingContext (listing e) business
      in if isTruthy existingContextId
         then (\<lparr>status = 200, body = ContextBody existingContextId business True\<rparr>,
               calls @ [ListContexts])
         else
           (let timestamp = now e;
                created = \<lparr>name = business @ '' Sales Rep - '' @ userName req
                                    @ '' ('' @ showNat timestamp @ '')'',
                           avatar_id = selectedAvatarId,
                           voice_id = selectedVoiceId,
                           prompt = systemPrompt,
                           opening_text = ''Hi there! I'' @ [CHR 0x27]
                             @ ''m the AI sales assistant for '' @ business
                             @ ''. How can I help you today?''\<rparr>;
                calls2 = calls @ [ListContexts, CreateContext created]
            in case creation e of
                 CreateThrows msg \<Rightarrow> (\<lparr>status = 500, body = ErrorBody msg\<rparr>, calls2)
               | CreateRejected st msg \<Rightarrow>
                   (\<lparr>status = st, body = ErrorBody (orDefault msg ''Failed to create context'')\<rparr>,
                    calls2)
               | CreateAccepted context_id ident \<Rightarrow>
                   (\<lparr>status = 200, body = ContextBody (orElse context_id ident) business False\<rparr>,
                    calls2)))"

definition couldNotAccess :: "string \<Rightarrow> string" where
  "couldNotAccess url =
     ''Could not access the website '' @ [CHR 0x22] @ url @ [CHR 0x22]
       @ ''. Please double-check the URL and make sure the website is accessible.''"

section \<open>The route \<open>generate-context\<close>\<close>

text \<open>
  Step 1 of \<open>POST\<close> in the single-page route: the variables \<open>websiteContent\<close>,
  \<open>businessName\<close> and \<open>websiteFetchFailed\<close> behind the \<open>try\<close> block.
\<close>

definition fetchSinglePage :: "env \<Rightarrow> string \<Rightarrow> string \<times> string \<times> bool" where
  "fetchSinglePage e url =
     (case pageOf e url of
        None \<Rightarrow> ([], [], True)
      | Some html \<Rightarrow>
          (let websiteContent = extractTextFromHtml html
           in (websiteContent, extractBusinessName (urlParser e) url websiteContent, False)))"

text \<open>\<open>POST\<close> of the single-page route.\<close>

definition POST :: "env \<Rightarrow> request \<Rightarrow> response \<times> call list" where
  "POST e req =
     (if userName req = [] \<or> businessUrl req = []
      then (\<lparr>status = 400, body = ErrorBody ''Missing userName or businessUrl''\<rparr>, [])
      else
        (case fetchSinglePage e (businessUrl req) of
           (websiteContent, business, websiteFetchFailed) \<Rightarrow>
             if websiteFetchFailed
             then (\<lparr>status = 400, body = ErrorBody (couldNotAccess (businessUrl req))\<rparr>,
                   [FetchPage (businessUrl req)])
             else reuseOrCreate e req business
                    (generateSalesPrompt (userName req) business websiteContent)
                    [FetchPage (businessUrl req)]))"

text \<open>
  \<open>POST\<close> of the multi-page route. An exception of the crawl is caught by the handler
  and answered with the status 500.
\<close>

definition POST_multi :: "env \<Rightarrow> request \<Rightarrow> response \<times> call list" where
  "POST_multi e req =
     (if userName req = [] \<or> businessUrl req = []
      then (\<lparr>status = 400, body = ErrorBody ''Missing userName or businessUrl''\<rparr>, [])
      else
        (case fetchWebsiteContent e (businessUrl req) of
           Inl err \<Rightarrow> (\<lparr>status = 500, body = ErrorBody err\<rparr>, [])
         | Inr (crawl, calls) \<Rightarrow>
             if content crawl = []
             then (\<lparr>status = 400, body = ErrorBody (couldNotAccess (businessUrl req))\<rparr>, calls)
             else
               (let business = extractBusinessName (urlParser e) (businessUrl req) (content crawl)
                in reuseOrCreate e req business
                     (generateSalesPrompt_multi (userName req) business (content crawl)
                        (title crawl) (description crawl))
                     calls)))"

section \<open>Session Orchestrator\<close>

text \<open>
  The state of the component \<open>LiveAvatarDemo\<close> that \<open>startSession\<close> reads and writes.
  The form fields \<open>userName\<close> and \<open>businessUrl\<close> are called \<open>formUserName\<close> and
  \<open>formBusinessUrl\<close> here, since the body of the request has fields of these names; of
  an avatar the two fields are kept that \<open>startSession\<close> reads, \<open>id\<close> and
  \<open>default_voice?.id\<close>.
\<close>

datatype SetupStep = Form | Generating | Session | Ended

record GenerationStatus =
  step :: string
  detail :: string

record Avatar =
  avatarIdent :: string
  defaultVoiceIdent :: "string option"

record ui_state =
  sessionToken :: string
  error :: "string option"
  setupStep :: SetupStep
  generationStatus :: GenerationStatus
  formUserName :: string
  formBusinessUrl :: string
  currentContextId :: "string option"
  currentBusinessName :: string
  selectedAvatar :: "Avatar option"

text \<open>
  What the component sees of a call to one of its two routes: \<open>fetch\<close> or \<open>json()\<close>
  throws an error with a message; the status is not 2xx and the body has, or has not,
  the field \<open>error\<close>; or the status is 2xx and the body is read.
\<close>

datatype 'a reply = Threw string | Refused "string option" | Accepted 'a

record context_reply =
  contextId :: "string option"
  businessName :: string

text \<open>
  The trace of a run: the steps it sets and the calls it makes. The start of a session
  is called with \<open>contextId\<close>, \<open>avatarId\<close> and \<open>voiceId\<close>.
\<close>

datatype ui_event =
    StepSet SetupStep
  | PostGenerateContext request
  | PostStartSession "string option" "string option" "string option"

text \<open>The \<open>catch\<close> block of \<open>startSession\<close>.\<close>

definition caught :: "string \<Rightarrow> ui_state \<Rightarrow> ui_event list \<Rightarrow> ui_state \<times> ui_event list" where
  "caught msg s events = (s\<lparr>error := Some msg, setupStep := Form\<rparr>, events @ [StepSet Form])"

text \<open>
  \<open>startSession\<close> of \<open>LiveAvatarDemo.tsx\<close>, given the outcomes of its two calls. The
  values of the form are those of the state the run starts in.
\<close>

definition startSession ::
  "context_reply reply \<Rightarrow> string reply \<Rightarrow> ui_state \<Rightarrow> ui_state \<times> ui_event list" where
  "startSession contextRes sessionRes s0 =
     (let s1 = s0\<lparr>error := None, setupStep := Generating\<rparr>;
          normalizedUrl = normalizeUrl (formBusinessUrl s0);
          s2 = s1\<lparr>generationStatus :=
                   \<lparr>step = ''Analyzing website'',
                    detail = ''Fetching content from '' @ normalizedUrl @ ''...''\<rparr>\<rparr>;
          avatar = map_option avatarIdent (selectedAvatar s0);
          voice = Option.bind (selectedAvatar s0) defaultVoiceIdent;
          call1 = PostGenerateContext
                    \<lparr>userName = formUserName s0, businessUrl = normalizedUrl,
                     avatarId = avatar, voiceId = voice\<rparr>
      in case contextRes of
           Threw msg \<Rightarrow> caught msg s2 [StepSet Generating, call1]
         | Refused err \<Rightarrow>
             caught (orDefault err ''Failed to generate context'') s2 [StepSet Generating, call1]
         | Accepted c \<Rightarrow>
             (let s3 = s2\<lparr>currentContextId := contextId c,
                          currentBusinessName := businessName c,
                          generationStatus :=
                            \<lparr>step = ''Creating your AI representative'',
                             detail = ''Setting up sales agent for '' @ businessName c @ ''...''\<rparr>\<rparr>;
                  call2 = PostStartSession (contextId c) avatar voice
              in case sessionRes of
                   Threw msg \<Rightarrow> caught msg s3 [StepSet Generating, call1, call2]
                 | Refused err \<Rightarrow>
                     caught (orDefault err ''Failed to start session'') s3
                       [StepSet Generating, call1, call2]
                 | Accepted session_token \<Rightarrow>
                     (s3\<lparr>sessionToken := session_token, setupStep := Session\<rparr>,
                      [StepSet Generating, call1, call2, StepSet Session])))"

text \<open>
  \<open>startSession\<close> of the revision without the end screen: it does not keep the context
  of the answer, so the two fields for it stay as they are.
\<close>

definition startSession_basic ::
  "context_reply reply \<Rightarrow> string reply \<Rightarrow> ui_state \<Rightarrow> ui_state \<times> ui_event list" where
  "startSession_basic contextRes sessionRes s0 =
     (let s1 = s0\<lparr>error := None, setupStep := Generating\<rparr>;
          normalizedUrl = normalizeUrl (formBusinessUrl s0);
          s2 = s1\<lparr>generationStatus :=
                   \<lparr>step = ''Analyzing website'',
                    detail = ''Fetching content from '' @ normalizedUrl @ ''...''\<rparr>\<rparr>;
          avatar = map_option avatarIdent (selectedAvatar s0);
          voice = Option.bind (selectedAvatar s0) defaultVoiceIdent;
          call1 = PostGenerateContext
                    \<lparr>userName = formUserName s0, businessUrl = normalizedUrl,
                     avatarId = avatar, voiceId = voice\<rparr>
      in case contextRes of
           Threw msg \<Rightarrow> caught msg s2 [StepSet Generating, call1]
         | Refused err \<Rightarrow>
             caught (orDefault err ''Failed to generate context'') s2 [StepSet Generating, call1]
         | Accepted c \<Rightarrow>
             (let s3 = s2\<lparr>generationStatus :=
                            \<lparr>step = ''Creating your AI representative'',
                             detail = ''Setting up sales agent for '' @ businessName c @ ''...''\<rparr>\<rparr>;
                  call2 = PostStartSession (contextId c) avatar voice
              in case sessionRes of
                   Threw msg \<Rightarrow> caught msg s3 [StepSet Generating, call1, call2]
                 | Refused err \<Rightarrow>
                     caught (orDefault err ''Failed to start session'') s3
                       [StepSet Generating, call1, call2]
                 | Accepted session_token \<Rightarrow>
                     (s3\<lparr>sessionToken := session_token, setupStep := Session\<rparr>,
                      [StepSet Generating, call1, call2, StepSet Session])))"


section \<open>Sample requests and environments\<close>

text \<open>
  Concrete requests and worlds at which the theorems below are instantiated: a visitor
  called Bob who asks for \<open>https://acme.com\<close>; a site that cannot be reached; a site
  whose homepage says \<open>Anvils\<close>, first while the listing of the remote service fails,
  later with two different listings; and a world in which one site answers with an
  empty body and another with a page that has an empty element and a script, but no
  text.
\<close>

definition visitor :: request where
  "visitor = \<lparr>userName = ''Bob'', businessUrl = ''https://acme.com'', avatarId = None, voiceId = None\<rparr>"

definition unreachableSite :: env where
  "unreachableSite =
     \<lparr>urlParser = simpleURL, pageOf = (\<lambda>url. None), listing = ListPage [],
      creation = CreateAccepted (Some ''ctx-1'') None, now = 1700000000000\<rparr>"

definition acmeSite :: env where
  "acmeSite =
     \<lparr>urlParser = simpleURL,
      pageOf = (\<lambda>url. if url = ''https://acme.com'' then Some ''<p>Anvils</p>'' else None),
      listing = ListFailed,
      creation = CreateAccepted (Some ''ctx-2'') None,
      now = 1700000000000\<rparr>"

definition acmeSiteLater :: env where
  "acmeSiteLater =
     acmeSite\<lparr>listing := ListPage
        [\<lparr>ctx_id = ''ctx-1'', ctx_name = ''Acme Sales Rep - Ann (1600000000000)''\<rparr>,
         \<lparr>ctx_id = ''ctx-2'', ctx_name = ''Acme Sales Rep - Bob (1700000000000)''\<rparr>],
       now := 1700000060000\<rparr>"

definition acmeSiteReused :: env where
  "acmeSiteReused =
     acmeSite\<lparr>listing := ListPage
        [\<lparr>ctx_id = ''ctx-1'', ctx_name = ''Globex Sales Rep - Ann (1600000000000)''\<rparr>,
         \<lparr>ctx_id = ''ctx-2'', ctx_name = ''Acme Sales Rep - Bob (1700000000000)''\<rparr>],
       now := 1700000060000\<rparr>"

definition blankSite :: env where
  "blankSite =
     \<lparr>urlParser = simpleURL,
      pageOf = (\<lambda>url. if url = ''https://acme.com'' then Some []
                       else if url = ''https://widgets.io''
                       then Some ''<div id=root></div><script>render()</script>''
                       else None),
      listing = ListPage [],
      creation = CreateAccepted (Some ''ctx-1'') None,
      now = 1700000000000\<rparr>"


text \<open>The names of the contexts a run asked the remote service to create.\<close>

definition createdNames :: "call list \<Rightarrow> string list" where
  "createdNames calls =
     concat (map (\<lambda>c. case c of CreateContext r \<Rightarrow> [name r] | _ \<Rightarrow> []) calls)"

section \<open>Properties of the Text Extractor\<close>

text \<open>
  Claim C8. \<open>extractTextFromHtml\<close> applied to
  \<open><script>bad()</script><p>Hello&nbsp;World</p>\<close> returns exactly \<open>Hello World\<close>:
  the script element goes with its content, the two \<open>p\<close> tags become spaces, the
  entity becomes a space, and the spaces at both ends are trimmed.
\<close>

theorem extractTextFromHtml_example:
  "extractTextFromHtml ''<script>bad()</script><p>Hello&nbsp;World</p>'' = ''Hello World''"
  by code_simp

text \<open>
  Claim C10. \<open>&amp;\<close> is decoded before \<open>&lt;\<close>, so the doubly encoded \<open>&amp;lt;\<close>
  is decoded twice and comes out as \<open><\<close>; \<open>&nbsp;\<close> is decoded before \<open>&amp;\<close>, so
  \<open>&amp;nbsp;\<close> comes out as the literal text \<open>&nbsp;\<close>. Both routes behave alike.
\<close>

theorem extractTextFromHtml_double_decoding:
  "extractTextFromHtml ''&amp;lt;'' = ''<'' \<and>
   extractTextFromHtml ''&amp;nbsp;'' = ''&nbsp;'' \<and>
   extractTextFromHtml_multi ''&amp;lt;'' = ''<'' \<and>
   extractTextFromHtml_multi ''&amp;nbsp;'' = ''&nbsp;''"
  by code_simp

section \<open>Properties of the Business Identity Resolver\<close>

text \<open>
  Claim C6. \<open>extractBusinessName\<close> does not depend on its content argument: for every
  URL and any two contents it returns the same name. It is a function of the URL (and
  of the parser), so two calls with the same URL give the same string.
\<close>

theorem extractBusinessName_content_independent:
  "extractBusinessName newURL url content1 = extractBusinessName newURL url content2"
  by (simp add: extractBusinessName_def)

text \<open>
  Claim C7. For the URL \<open>https://www.Example-Co.com\<close> the platform's parser gives the
  host name \<open>www.example-co.com\<close>; with it, and with any content,
  \<open>extractBusinessName\<close> returns \<open>Example Co\<close>: \<open>www.\<close> and \<open>.com\<close> are stripped, the rest
  is split at the hyphen, both segments are capitalised and joined with a space.
\<close>

theorem extractBusinessName_example:
  assumes "newURL ''https://www.Example-Co.com'' = Inr u"
    and "hostname u = ''www.example-co.com''"
  shows "extractBusinessName newURL ''https://www.Example-Co.com'' websiteContent = ''Example Co''"
proof -
  have n: "join '' '' (map capitalize (splitDotDash (stripTld (stripWww ''www.example-co.com''))))
             = ''Example Co''"
    by code_simp
  show ?thesis
    by (simp only: extractBusinessName_def assms sum.case Let_def n)
qed

theorem extractBusinessName_example_witness:
  "simpleURL ''https://www.Example-Co.com''
     = Inr \<lparr>origin = ''https://www.example-co.com'', hostname = ''www.example-co.com''\<rparr> \<and>
   extractBusinessName simpleURL ''https://www.Example-Co.com'' ''Welcome to Example Co''
     = ''Example Co''"
proof -
  have p: "simpleURL ''https://www.Example-Co.com''
     = Inr \<lparr>origin = ''https://www.example-co.com'', hostname = ''www.example-co.com''\<rparr>"
    by code_simp
  show ?thesis
    using p extractBusinessName_example
      [of simpleURL "\<lparr>origin = ''https://www.example-co.com'', hostname = ''www.example-co.com''\<rparr>"
          "''Welcome to Example Co''"]
    by simp
qed

section \<open>Properties of the Prompt Composer\<close>

lemma take_min_length: "take (min (length c) n) c = take n c"
  by (cases "length c \<le> n") (simp_all add: min_def)

text \<open>
  Claim C1. In the prompt of either route the crawled content stands between a text
  before and a text after it that do not depend on the content, and what stands there
  is the first \<open>min (length websiteContent) ceiling\<close> characters of the content, so at most
  \<open>ceiling\<close> characters: 2000 in the single-page route, 6000 in the multi-page route.
\<close>

theorem generateSalesPrompt_content_bounded:
  "(\<exists>pre post. \<forall>websiteContent.
      generateSalesPrompt user business websiteContent
        = pre @ take (min (length websiteContent) 2000) websiteContent @ post \<and>
      length (take (min (length websiteContent) 2000) websiteContent) \<le> 2000) \<and>
   (\<exists>pre post. \<forall>websiteContent.
      generateSalesPrompt_multi user business websiteContent pageTitle pageDescription
        = pre @ take (min (length websiteContent) 6000) websiteContent @ post \<and>
      length (take (min (length websiteContent) 6000) websiteContent) \<le> 6000)"
proof
  let ?pre = "join newline
        [''You are a friendly and knowledgeable AI sales representative for '' @ business
           @ ''. Your name is '' @ user @ [CHR 0x27] @ ''s AI Assistant.'',
         [],
         ''Your role is to:'',
         ''- Welcome visitors warmly and learn about their needs'',
         ''- Answer questions about '' @ business @ [CHR 0x27] @ ''s products and services'',
         ''- Help potential customers understand how '' @ business
           @ '' can solve their problems'',
         ''- Guide interested visitors toward taking the next step (booking a demo, contacting sales, etc.)'',
         [],
         ''Here is information about the business from their website:'',
         []]"
  let ?post = "join newline
        [[],
         [],
         ''Communication style:'',
         ''- Be conversational and approachable, not salesy or pushy'',
         ''- Listen actively and ask clarifying questions'',
         ''- Provide helpful, accurate information based on what you know'',
         ''- If you don'' @ [CHR 0x27] @ ''t know something specific, offer to connect them with a human team member'',
         ''- Keep responses concise and natural for voice conversation'',
         [],
         ''Remember: You'' @ [CHR 0x27] @ ''re having a real-time voice conversation, so keep your responses brief and conversational.'']"
  have "\<forall>websiteContent. generateSalesPrompt user business websiteContent
          = ?pre @ take (min (length websiteContent) 2000) websiteContent @ ?post \<and>
        length (take (min (length websiteContent) 2000) websiteContent) \<le> 2000"
    by (simp add: generateSalesPrompt_def slice_def take_min_length)
  then show "\<exists>pre post. \<forall>websiteContent.
      generateSalesPrompt user business websiteContent
        = pre @ take (min (length websiteContent) 2000) websiteContent @ post \<and>
      length (take (min (length websiteContent) 2000) websiteContent) \<le> 2000"
    by blast
next
  let ?pre = "join newline
        [''You are a friendly and knowledgeable AI sales representative for '' @ business
           @ ''. Your name is '' @ user @ [CHR 0x27] @ ''s AI Assistant.'',
         [],
         ''Company Overview:'',
         ''- Company: '' @ business,
         (if pageTitle \<noteq> [] then ''- Title: '' @ pageTitle else []),
         (if pageDescription \<noteq> [] then ''- Description: '' @ pageDescription else []),
         [],
         ''Your role is to:'',
         ''- Welcome visitors warmly and learn about their needs'',
         ''- Answer questions about '' @ business @ [CHR 0x27]
           @ ''s products, services, and offerings'',
         ''- Provide accurate, up-to-date information about '' @ business,
         ''- Help potential customers understand how '' @ business
           @ '' can solve their problems'',
         ''- Guide interested visitors toward taking the next step (booking a demo, contacting sales, signing up, etc.)'',
         [],
         ''IMPORTANT: Base your answers ONLY on the information provided below. If asked about something not covered in the content below, say you'' @ [CHR 0x27] @ ''d be happy to connect them with someone who can help with that specific question.'',
         [],
         ''Here is detailed information about '' @ business @ '' from their website:'',
         [],
         []]"
  let ?post = "join newline
        [[],
         [],
         ''Communication style:'',
         ''- Be conversational and approachable, not salesy or pushy'',
         ''- Listen actively and ask clarifying questions'',
         ''- Provide helpful, accurate information based ONLY on what'' @ [CHR 0x27]
           @ ''s provided above'',
         ''- If you don'' @ [CHR 0x27] @ ''t know something specific, offer to connect them with a human team member'',
         ''- Keep responses concise and natural for voice conversation (2-3 sentences max)'',
         ''- Be enthusiastic about '' @ business @ [CHR 0x27] @ ''s offerings'',
         [],
         ''Remember: You'' @ [CHR 0x27] @ ''re having a real-time voice conversation, so keep your responses brief and conversational.'']"
  have "\<forall>websiteContent. generateSalesPrompt_multi user business websiteContent pageTitle pageDescription
          = ?pre @ take (min (length websiteContent) 6000) websiteContent @ ?post \<and>
        length (take (min (length websiteContent) 6000) websiteContent) \<le> 6000"
    by (simp add: generateSalesPrompt_multi_def slice_def take_min_length)
  then show "\<exists>pre post. \<forall>websiteContent.
      generateSalesPrompt_multi user business websiteContent pageTitle pageDescription
        = pre @ take (min (length websiteContent) 6000) websiteContent @ post \<and>
      length (take (min (length websiteContent) 6000) websiteContent) \<le> 6000"
    by blast
qed

section \<open>Evaluation of the samples\<close>

lemma simpleURL_acme:
  "simpleURL ''https://acme.com'' = Inr \<lparr>origin = ''https://acme.com'', hostname = ''acme.com''\<rparr>"
  by code_simp

lemma acmeSite_fields:
  "urlParser acmeSite = simpleURL"
  "pageOf acmeSite ''https://acme.com'' = Some ''<p>Anvils</p>''"
  "listing acmeSite = ListFailed"
  "creation acmeSite = CreateAccepted (Some ''ctx-2'') None"
  "now acmeSite = 1700000000000"
  by (simp_all add: acmeSite_def)

lemma acmeSiteLater_fields:
  "urlParser acmeSiteLater = simpleURL"
  "pageOf acmeSiteLater ''https://acme.com'' = Some ''<p>Anvils</p>''"
  "listing acmeSiteLater = ListPage
        [\<lparr>ctx_id = ''ctx-1'', ctx_name = ''Acme Sales Rep - Ann (1600000000000)''\<rparr>,
         \<lparr>ctx_id = ''ctx-2'', ctx_name = ''Acme Sales Rep - Bob (1700000000000)''\<rparr>]"
  by (simp_all add: acmeSiteLater_def acmeSite_def)

lemma extract_anvils: "extractTextFromHtml ''<p>Anvils</p>'' = ''Anvils''"
  by code_simp

lemma business_acme: "extractBusinessName simpleURL ''https://acme.com'' c = ''Acme''"
proof -
  have "join '' '' (map capitalize (splitDotDash (stripTld (stripWww ''acme.com'')))) = ''Acme''"
    by code_simp
  then show ?thesis
    by (simp only: extractBusinessName_def simpleURL_acme sum.case Let_def URL.simps)
qed

lemma showNat_stamp: "showNat 1700000000000 = ''1700000000000''"
  by (simp add: showNat.simps digitChar_def)

lemma fetchSinglePage_acme:
  "fetchSinglePage acmeSite ''https://acme.com'' = (''Anvils'', ''Acme'', False)"
  "fetchSinglePage acmeSiteLater ''https://acme.com'' = (''Anvils'', ''Acme'', False)"
  by (simp_all add: fetchSinglePage_def acmeSite_fields acmeSiteLater_fields extract_anvils
      business_acme)

lemma acmeSiteReused_fields:
  "urlParser acmeSiteReused = simpleURL"
  "pageOf acmeSiteReused ''https://acme.com'' = Some ''<p>Anvils</p>''"
  "listing acmeSiteReused = ListPage
        [\<lparr>ctx_id = ''ctx-1'', ctx_name = ''Globex Sales Rep - Ann (1600000000000)''\<rparr>,
         \<lparr>ctx_id = ''ctx-2'', ctx_name = ''Acme Sales Rep - Bob (1700000000000)''\<rparr>]"
  by (simp_all add: acmeSiteReused_def acmeSite_def)

section \<open>Properties of the Site Crawler and of the route\<close>

lemma startsWith_append: "startsWith (p @ r) p"
  by (simp add: startsWith_def)

lemma reuseOrCreate_calls:
  "\<exists>more. snd (reuseOrCreate e req b p calls) = calls @ more"
  by (simp add: reuseOrCreate_def Let_def split: create_response.splits)

lemma fetchWebsiteContent_calls:
  assumes "fetchWebsiteContent e url = Inr (r, calls)"
  shows "\<exists>more. calls = FetchPage url # more"
  using assms
  by (auto simp: fetchWebsiteContent_def Let_def split: sum.splits if_splits)

lemma POST_multi_fetches_homepage:
  "FetchPage (businessUrl req) \<in> set (snd (POST_multi e req)) \<longleftrightarrow>
     userName req \<noteq> [] \<and> businessUrl req \<noteq> [] \<and> (\<exists>u. urlParser e (businessUrl req) = Inr u)"
proof (cases "userName req = [] \<or> businessUrl req = []")
  case True
  then show ?thesis by (auto simp: POST_multi_def)
next
  case False
  show ?thesis
  proof (cases "fetchWebsiteContent e (businessUrl req)")
    case (Inl err)
    then have "\<not> (\<exists>u. urlParser e (businessUrl req) = Inr u)"
      by (auto simp: fetchWebsiteContent_def Let_def split: sum.splits if_splits)
    with False Inl show ?thesis by (auto simp: POST_multi_def)
  next
    case (Inr rc)
    obtain r calls where rc: "rc = (r, calls)" by (cases rc)
    from Inr rc obtain more where calls: "calls = FetchPage (businessUrl req) # more"
      using fetchWebsiteContent_calls by blast
    from Inr have p: "\<exists>u. urlParser e (businessUrl req) = Inr u"
      by (auto simp: fetchWebsiteContent_def Let_def split: sum.splits if_splits)
    obtain more2 where "snd (reuseOrCreate e req
        (extractBusinessName (urlParser e) (businessUrl req) (content r))
        (generateSalesPrompt_multi (userName req)
           (extractBusinessName (urlParser e) (businessUrl req) (content r)) (content r)
           (title r) (description r)) calls) = calls @ more2"
      using reuseOrCreate_calls by blast
    with False Inr rc calls p show ?thesis
      by (auto simp: POST_multi_def Let_def)
  qed
qed

text \<open>
  Claim C2. When a request to the multi-page route gets to fetch its homepage (by
  \<open>POST_multi_fetches_homepage\<close> it does whenever the user name and the URL are not
  empty and the URL parses) and that fetch fails (a network error, a timeout or a
  status that is not 2xx), the crawl has an empty content and has fetched nothing but
  the homepage, and the route answers with the status 400 and a message that quotes
  the submitted URL.
\<close>

theorem homepage_failure_gives_400:
  assumes "FetchPage (businessUrl req) \<in> set (snd (POST_multi e req))"
    and "pageOf e (businessUrl req) = None"
  shows "fetchWebsiteContent e (businessUrl req)
           = Inr (\<lparr>content = [], title = [], description = []\<rparr>, [FetchPage (businessUrl req)]) \<and>
         POST_multi e req
           = (\<lparr>status = 400, body = ErrorBody (couldNotAccess (businessUrl req))\<rparr>,
              [FetchPage (businessUrl req)]) \<and>
         (\<exists>pre post. couldNotAccess (businessUrl req) = pre @ businessUrl req @ post)"
proof -
  from assms(1) have ok: "userName req \<noteq> []" "businessUrl req \<noteq> []"
    and "\<exists>u. urlParser e (businessUrl req) = Inr u"
    by (simp_all add: POST_multi_fetches_homepage)
  then obtain u where u: "urlParser e (businessUrl req) = Inr u" by blast
  have crawl: "fetchWebsiteContent e (businessUrl req)
           = Inr (\<lparr>content = [], title = [], description = []\<rparr>, [FetchPage (businessUrl req)])"
    using u assms(2) by (simp add: fetchWebsiteContent_def isTruthy_def)
  have resp: "POST_multi e req
           = (\<lparr>status = 400, body = ErrorBody (couldNotAccess (businessUrl req))\<rparr>,
              [FetchPage (businessUrl req)])"
    using ok crawl by (simp add: POST_multi_def)
  have "couldNotAccess (businessUrl req) = (''Could not access the website '' @ [CHR 0x22]) @ businessUrl req @
     ([CHR 0x22] @ ''. Please double-check the URL and make sure the website is accessible.'')"
    by (simp add: couldNotAccess_def)
  then have "\<exists>pre post. couldNotAccess (businessUrl req) = pre @ businessUrl req @ post"
    by blast
  with crawl resp show ?thesis by blast
qed

theorem homepage_failure_gives_400_witness:
  "FetchPage ''https://acme.com'' \<in> set (snd (POST_multi unreachableSite visitor)) \<and>
   pageOf unreachableSite ''https://acme.com'' = None \<and>
   fetchWebsiteContent unreachableSite ''https://acme.com''
     = Inr (\<lparr>content = [], title = [], description = []\<rparr>, [FetchPage ''https://acme.com'']) \<and>
   POST_multi unreachableSite visitor
     = (\<lparr>status = 400,
         body = ErrorBody (''Could not access the website '' @ [CHR 0x22] @ ''https://acme.com''
                   @ [CHR 0x22]
                   @ ''. Please double-check the URL and make sure the website is accessible.'')\<rparr>,
        [FetchPage ''https://acme.com''])"
proof -
  have f: "FetchPage (businessUrl visitor) \<in> set (snd (POST_multi unreachableSite visitor))"
    unfolding POST_multi_fetches_homepage
    by (simp add: visitor_def unreachableSite_def simpleURL_acme)
  have n: "pageOf unreachableSite (businessUrl visitor) = None"
    by (simp add: unreachableSite_def)
  have u: "businessUrl visitor = ''https://acme.com''"
    by (simp add: visitor_def)
  show ?thesis
    using f n homepage_failure_gives_400 [OF f n] by (simp add: u couldNotAccess_def)
qed

text \<open>
  Claim C5, as the code has it. In the multi-page route the content of the crawl is empty
  exactly when the fetch of the homepage failed or gave an empty body; a homepage with a
  body gives a content that is not empty, whatever becomes of the additional pages. In
  the single-page route the content is empty exactly when the fetch failed or the text
  extracted from the page is empty.
\<close>

theorem content_empty_iff:
  "(urlParser e url = Inr u \<longrightarrow>
      (\<exists>r calls. fetchWebsiteContent e url = Inr (r, calls) \<and>
         (content r = [] \<longleftrightarrow> pageOf e url = None \<or> pageOf e url = Some []))) \<and>
   (fst (fetchSinglePage e url) = [] \<longleftrightarrow>
      pageOf e url = None \<or> (\<exists>html. pageOf e url = Some html \<and> extractTextFromHtml html = []))"
proof
  show "urlParser e url = Inr u \<longrightarrow>
      (\<exists>r calls. fetchWebsiteContent e url = Inr (r, calls) \<and>
         (content r = [] \<longleftrightarrow> pageOf e url = None \<or> pageOf e url = Some []))"
  proof
    assume p: "urlParser e url = Inr u"
    show "\<exists>r calls. fetchWebsiteContent e url = Inr (r, calls) \<and>
         (content r = [] \<longleftrightarrow> pageOf e url = None \<or> pageOf e url = Some [])"
    proof (cases "isTruthy (pageOf e url)")
      case True
      then obtain html where "pageOf e url = Some html" and "html \<noteq> []"
        by (auto simp: isTruthy_def split: option.splits)
      with p True show ?thesis
        by (simp add: fetchWebsiteContent_def Let_def)
    next
      case False
      then have "pageOf e url = None \<or> pageOf e url = Some []"
        by (auto simp: isTruthy_def split: option.splits)
      with p False show ?thesis
        by (simp add: fetchWebsiteContent_def Let_def)
    qed
  qed
next
  show "fst (fetchSinglePage e url) = [] \<longleftrightarrow>
      pageOf e url = None \<or> (\<exists>html. pageOf e url = Some html \<and> extractTextFromHtml html = [])"
    by (cases "pageOf e url") (simp_all add: fetchSinglePage_def Let_def)
qed

theorem content_empty_iff_witness:
  "urlParser acmeSite ''https://acme.com''
     = Inr \<lparr>origin = ''https://acme.com'', hostname = ''acme.com''\<rparr> \<and>
   pageOf acmeSite ''https://acme.com'' = Some ''<p>Anvils</p>'' \<and>
   (\<exists>r calls. fetchWebsiteContent acmeSite ''https://acme.com'' = Inr (r, calls) \<and> content r \<noteq> []) \<and>
   fst (fetchSinglePage acmeSite ''https://acme.com'') \<noteq> []"
proof -
  have p: "urlParser acmeSite ''https://acme.com''
     = Inr \<lparr>origin = ''https://acme.com'', hostname = ''acme.com''\<rparr>"
    by (simp add: acmeSite_fields simpleURL_acme)
  have g: "pageOf acmeSite ''https://acme.com'' = Some ''<p>Anvils</p>''"
    by (simp add: acmeSite_fields)
  show ?thesis
    using p g content_empty_iff [of acmeSite "''https://acme.com''"
        "\<lparr>origin = ''https://acme.com'', hostname = ''acme.com''\<rparr>"]
    by (simp add: extract_anvils)
qed

text \<open>
  The stronger statement, that the content is empty only when every fetch failed, does
  not hold. The content of a crawl can be empty although a fetch succeeded: the
  multi-page crawl treats a homepage with an empty body, as a status 204 has it, like a
  failed fetch, and the single-page route takes the text of the page, which is empty for
  a page without text.
\<close>

theorem fetched_page_empty_content:
  "pageOf blankSite ''https://acme.com'' = Some [] \<and>
   fetchWebsiteContent blankSite ''https://acme.com''
     = Inr (\<lparr>content = [], title = [], description = []\<rparr>, [FetchPage ''https://acme.com'']) \<and>
   pageOf blankSite ''https://widgets.io''
     = Some ''<div id=root></div><script>render()</script>'' \<and>
   fetchSinglePage blankSite ''https://widgets.io'' = ([], ''Widgets'', False)"
proof -
  have u: "urlParser blankSite = simpleURL"
    and a: "pageOf blankSite ''https://acme.com'' = Some []"
    and b: "pageOf blankSite ''https://widgets.io''
              = Some ''<div id=root></div><script>render()</script>''"
    by (simp_all add: blankSite_def)
  have c: "fetchWebsiteContent blankSite ''https://acme.com''
     = Inr (\<lparr>content = [], title = [], description = []\<rparr>, [FetchPage ''https://acme.com''])"
    by (simp add: fetchWebsiteContent_def u a simpleURL_acme isTruthy_def)
  have t: "extractTextFromHtml ''<div id=root></div><script>render()</script>'' = []"
    by code_simp
  have n: "extractBusinessName simpleURL ''https://widgets.io'' [] = ''Widgets''"
    by code_simp
  have d: "fetchSinglePage blankSite ''https://widgets.io'' = ([], ''Widgets'', False)"
    by (simp add: fetchSinglePage_def u b t n)
  from a b c d show ?thesis by simp
qed

section \<open>Properties of the Context Repository Client\<close>

lemma find_first_match:
  "x \<in> set xs \<Longrightarrow> P x \<Longrightarrow> \<forall>y \<in> set (takeWhile (\<lambda>y. y \<noteq> x) xs). \<not> P y
     \<Longrightarrow> find P xs = Some x"
proof (induction xs)
  case Nil
  then show ?case by simp
next
  case (Cons a xs)
  show ?case
  proof (cases "a = x")
    case True
    with Cons.prems show ?thesis by simp
  next
    case False
    with Cons.prems have "\<not> P a" and "x \<in> set xs"
      and "\<forall>y \<in> set (takeWhile (\<lambda>y. y \<noteq> x) xs). \<not> P y"
      by simp_all
    with Cons.IH Cons.prems(2) show ?thesis by simp
  qed
qed

lemma find_some_match:
  assumes "x \<in> set xs" and "P x"
  shows "\<exists>m. find P xs = Some m \<and> m \<in> set xs"
  using assms by (induction xs) auto

text \<open>
  Claim C3, as the code has it. Let a request for a business find the page of the
  listing, with identifiers that are not empty, and on it the context that an earlier
  request created under the name \<open><business> Sales Rep - <user> (<timestamp>)\<close>. Then
  the request answers \<open>reused: true\<close> with the identifier of the first context of the
  page whose name starts with \<open><business> Sales Rep\<close>, and makes no create call. That
  identifier is the one of the earlier request whenever no context listed before it has
  a name with that prefix.
\<close>

theorem reuse_returns_first_match:
  assumes "userName req \<noteq> []" and "businessUrl req \<noteq> []"
    and "fetchSinglePage e (businessUrl req) = (text, business, False)"
    and "listing e = ListPage page"
    and "created \<in> set page"
    and "ctx_name created = business @ '' Sales Rep - '' @ user1 @ '' ('' @ showNat stamp @ '')''"
    and "\<forall>c \<in> set page. ctx_id c \<noteq> []"
  shows "(\<exists>m. find (\<lambda>c. startsWith (ctx_name c) (business @ '' Sales Rep'')) page = Some m \<and>
           POST e req = (\<lparr>status = 200, body = ContextBody (Some (ctx_id m)) business True\<rparr>,
                         [FetchPage (businessUrl req), ListContexts])) \<and>
         ((\<forall>c \<in> set (takeWhile (\<lambda>c. c \<noteq> created) page).
              \<not> startsWith (ctx_name c) (business @ '' Sales Rep'')) \<longrightarrow>
           POST e req = (\<lparr>status = 200, body = ContextBody (Some (ctx_id created)) business True\<rparr>,
                         [FetchPage (businessUrl req), ListContexts]))"
proof -
  let ?P = "\<lambda>c. startsWith (ctx_name c) (business @ '' Sales Rep'')"
  have hit: "?P created"
    using assms(6) startsWith_append [of "business @ '' Sales Rep''"] by simp
  have run: "POST e req = (\<lparr>status = 200, body = ContextBody (Some (ctx_id m)) business True\<rparr>,
                         [FetchPage (businessUrl req), ListContexts])"
    if "find ?P page = Some m" for m
  proof -
    from that have "m \<in> set page" by (auto simp: find_Some_iff)
    with assms(7) have "ctx_id m \<noteq> []" by blast
    with that assms(1-4) show ?thesis
      by (simp add: POST_def reuseOrCreate_def findExistingContext_def isTruthy_def)
  qed
  from assms(5) hit obtain m where m: "find ?P page = Some m"
    using find_some_match [of created page ?P] by blast
  have first: "\<exists>m. find ?P page = Some m \<and>
           POST e req = (\<lparr>status = 200, body = ContextBody (Some (ctx_id m)) business True\<rparr>,
                         [FetchPage (businessUrl req), ListContexts])"
    using m run by blast
  have second: "POST e req = (\<lparr>status = 200, body = ContextBody (Some (ctx_id created)) business True\<rparr>,
                         [FetchPage (businessUrl req), ListContexts])"
    if "\<forall>c \<in> set (takeWhile (\<lambda>c. c \<noteq> created) page). \<not> ?P c"
  proof -
    from assms(5) hit that have "find ?P page = Some created"
      by (rule find_first_match)
    then show ?thesis by (rule run)
  qed
  from first second show ?thesis by blast
qed

theorem reuse_returns_first_match_witness:
  "fetchSinglePage acmeSiteReused ''https://acme.com'' = (''Anvils'', ''Acme'', False) \<and>
   listing acmeSiteReused = ListPage
        [\<lparr>ctx_id = ''ctx-1'', ctx_name = ''Globex Sales Rep - Ann (1600000000000)''\<rparr>,
         \<lparr>ctx_id = ''ctx-2'', ctx_name = ''Acme Sales Rep - Bob (1700000000000)''\<rparr>] \<and>
   POST acmeSiteReused visitor
     = (\<lparr>status = 200, body = ContextBody (Some ''ctx-2'') ''Acme'' True\<rparr>,
        [FetchPage ''https://acme.com'', ListContexts])"
proof -
  let ?page = "[\<lparr>ctx_id = ''ctx-1'', ctx_name = ''Globex Sales Rep - Ann (1600000000000)''\<rparr>,
         \<lparr>ctx_id = ''ctx-2'', ctx_name = ''Acme Sales Rep - Bob (1700000000000)''\<rparr>]"
  let ?created = "\<lparr>ctx_id = ''ctx-2'', ctx_name = ''Acme Sales Rep - Bob (1700000000000)''\<rparr>"
  have h1: "userName visitor \<noteq> []" and h2: "businessUrl visitor \<noteq> []"
    by (simp_all add: visitor_def)
  have h3: "fetchSinglePage acmeSiteReused (businessUrl visitor) = (''Anvils'', ''Acme'', False)"
    by (simp add: visitor_def fetchSinglePage_def acmeSiteReused_fields extract_anvils business_acme)
  have h4: "listing acmeSiteReused = ListPage ?page"
    by (simp add: acmeSiteReused_fields)
  have h5: "?created \<in> set ?page"
    by simp
  have h6: "ctx_name ?created = ''Acme'' @ '' Sales Rep - '' @ ''Bob'' @ '' ('' @ showNat 1700000000000 @ '')''"
    by (simp add: showNat_stamp)
  have h7: "\<forall>c \<in> set ?page. ctx_id c \<noteq> []"
    by simp
  have h8: "\<forall>c \<in> set (takeWhile (\<lambda>c. c \<noteq> ?created) ?page).
              \<not> startsWith (ctx_name c) (''Acme'' @ '' Sales Rep'')"
    by (simp add: startsWith_def)
  from reuse_returns_first_match [OF h1 h2 h3 h4 h5 h6 h7] h8
  have "POST acmeSiteReused visitor
     = (\<lparr>status = 200, body = ContextBody (Some (ctx_id ?created)) ''Acme'' True\<rparr>,
        [FetchPage (businessUrl visitor), ListContexts])"
    by blast
  with h3 h4 show ?thesis by (simp add: visitor_def)
qed

text \<open>
  Without the condition on the contexts listed before it the last part fails: the second
  of two requests for one business can answer with another context than the one the
  first request created. Here the lookup of the first request fails, so that it
  creates \<open>ctx-2\<close> beside the older \<open>ctx-1\<close>; the second request finds both listed and
  reuses \<open>ctx-1\<close>, the first of the page whose name has the prefix.
\<close>

theorem reuse_returns_older_context:
  "fst (POST acmeSite visitor)
     = \<lparr>status = 200, body = ContextBody (Some ''ctx-2'') ''Acme'' False\<rparr> \<and>
   createdNames (snd (POST acmeSite visitor)) = [''Acme Sales Rep - Bob (1700000000000)''] \<and>
   listing acmeSiteLater = ListPage
        [\<lparr>ctx_id = ''ctx-1'', ctx_name = ''Acme Sales Rep - Ann (1600000000000)''\<rparr>,
         \<lparr>ctx_id = ''ctx-2'', ctx_name = ''Acme Sales Rep - Bob (1700000000000)''\<rparr>] \<and>
   POST acmeSiteLater visitor
     = (\<lparr>status = 200, body = ContextBody (Some ''ctx-1'') ''Acme'' True\<rparr>,
        [FetchPage ''https://acme.com'', ListContexts])"
proof -
  have a: "fst (POST acmeSite visitor)
     = \<lparr>status = 200, body = ContextBody (Some ''ctx-2'') ''Acme'' False\<rparr>"
    by (simp add: POST_def visitor_def fetchSinglePage_acme reuseOrCreate_def
        findExistingContext_def isTruthy_def orElse_def acmeSite_fields)
  have b: "createdNames (snd (POST acmeSite visitor)) = [''Acme Sales Rep - Bob (1700000000000)'']"
    by (simp add: POST_def visitor_def fetchSinglePage_acme reuseOrCreate_def
        findExistingContext_def isTruthy_def orElse_def createdNames_def showNat_stamp
        acmeSite_fields)
  have c: "listing acmeSiteLater = ListPage
        [\<lparr>ctx_id = ''ctx-1'', ctx_name = ''Acme Sales Rep - Ann (1600000000000)''\<rparr>,
         \<lparr>ctx_id = ''ctx-2'', ctx_name = ''Acme Sales Rep - Bob (1700000000000)''\<rparr>]"
    by (simp add: acmeSiteLater_fields)
  have d: "POST acmeSiteLater visitor
     = (\<lparr>status = 200, body = ContextBody (Some ''ctx-1'') ''Acme'' True\<rparr>,
        [FetchPage ''https://acme.com'', ListContexts])"
    by (simp add: POST_def visitor_def fetchSinglePage_acme reuseOrCreate_def c
        findExistingContext_def isTruthy_def startsWith_def)
  from a b c d show ?thesis by simp
qed

section \<open>Properties of the Session Orchestrator\<close>







text \<open>
  Claim C9. A URL that, trimmed, does not start with \<open>http://\<close> or \<open>https://\<close> (in
  either case of the letters, as the test of the source compares) is normalised to
  \<open>https://\<close> and the trimmed text; \<open>example.com\<close> becomes \<open>https://example.com\<close>. A
  run of \<open>startSession\<close> sets the step and then, as its first call, sends the request
  to \<open>generate-context\<close>, and the URL in it is the normalised one.
\<close>

theorem normalizeUrl_adds_https:
  "(\<not> hasHttpScheme (trim url) \<longrightarrow> normalizeUrl url = ''https://'' @ trim url) \<and>
   normalizeUrl ''example.com'' = ''https://example.com'' \<and>
   (\<exists>r rest. snd (startSession contextRes sessionRes s)
        = StepSet Generating # PostGenerateContext r # rest \<and>
      businessUrl r = normalizeUrl (formBusinessUrl s)) \<and>
   (\<exists>r rest. snd (startSession_basic contextRes sessionRes s)
        = StepSet Generating # PostGenerateContext r # rest \<and>
      businessUrl r = normalizeUrl (formBusinessUrl s))"
proof -
  have a: "\<not> hasHttpScheme (trim url) \<longrightarrow> normalizeUrl url = ''https://'' @ trim url"
    by (simp add: normalizeUrl_def Let_def)
  have b: "normalizeUrl ''example.com'' = ''https://example.com''"
    by code_simp
  have c: "\<exists>r rest. snd (startSession contextRes sessionRes s)
        = StepSet Generating # PostGenerateContext r # rest \<and>
      businessUrl r = normalizeUrl (formBusinessUrl s)"
    by (cases contextRes; cases sessionRes)
       (simp_all add: startSession_def caught_def Let_def)
  have d: "\<exists>r rest. snd (startSession_basic contextRes sessionRes s)
        = StepSet Generating # PostGenerateContext r # rest \<and>
      businessUrl r = normalizeUrl (formBusinessUrl s)"
    by (cases contextRes; cases sessionRes)
       (simp_all add: startSession_basic_def caught_def Let_def)
  from a b c d show ?thesis by blast
qed

theorem normalizeUrl_adds_https_witness:
  "\<not> hasHttpScheme (trim ''  acme.com '') \<and> normalizeUrl ''  acme.com '' = ''https://acme.com''"
proof -
  have t: "trim ''  acme.com '' = ''acme.com''"
    by code_simp
  have h: "\<not> hasHttpScheme (trim ''  acme.com '')"
    unfolding t by code_simp
  from h normalizeUrl_adds_https [of "''  acme.com ''"] show ?thesis
    by (simp add: t)
qed

end
